theory Spec2Isabelle
  imports Complex_Main
begin

section \<open>ProgressTracker: the phases of the pipeline\<close>

text \<open>
  The component \<^verbatim>\<open>ProgressTracker\<close> receives the polled \<^verbatim>\<open>progress\<close> (a JavaScript
  number, read here as a real: the comparisons of the source are exact on doubles) and
  holds the constant list \<^verbatim>\<open>phases\<close>. The field \<^verbatim>\<open>id\<close> is called \<open>id_phase\<close>, since
  \<open>id\<close> is the identity of HOL; the field \<^verbatim>\<open>icon\<close> (a React component) plays no part in
  any computation and is left out.
\<close>

record phase =
  id_phase :: string
  name :: string
  description :: string
  startProgress :: real
  endProgress :: real

definition phases :: "phase list" where
  "phases =
    [ \<lparr> id_phase = ''initialization'', name = ''Initialization'',
        description = ''Setting up analysis environment'',
        startProgress = 0, endProgress = 10 \<rparr>,
      \<lparr> id_phase = ''cloning'', name = ''Cloning Repository'',
        description = ''Downloading repository from GitHub'',
        startProgress = 10, endProgress = 20 \<rparr>,
      \<lparr> id_phase = ''analysis'', name = ''Code Analysis'',
        description = ''Detecting languages and structure'',
        startProgress = 20, endProgress = 30 \<rparr>,
      \<lparr> id_phase = ''generation'', name = ''Test Generation'',
        description = ''AI generating unit tests'',
        startProgress = 30, endProgress = 70 \<rparr>,
      \<lparr> id_phase = ''execution'', name = ''Test Execution'',
        description = ''Running tests and coverage'',
        startProgress = 70, endProgress = 90 \<rparr>,
      \<lparr> id_phase = ''completion'', name = ''Finalization'',
        description = ''Preparing results and reports'',
        startProgress = 90, endProgress = 100 \<rparr> ]"

text \<open>
  \<^verbatim>\<open>getPhaseStatus\<close> and \<^verbatim>\<open>getCurrentPhase\<close> close over \<^verbatim>\<open>progress\<close>; here it is
  their first argument. The predicate of \<^verbatim>\<open>phases.find\<close> is named \<open>inPhase\<close>.
  \<^verbatim>\<open>Array.prototype.find\<close> returns the first match or \<^verbatim>\<open>undefined\<close>, which is
  \<^const>\<open>List.find\<close>; a phase object is truthy, so \<^verbatim>\<open>||\<close> takes its right operand
  exactly when nothing was found.
\<close>

definition getPhaseStatus :: "real \<Rightarrow> phase \<Rightarrow> string" where
  "getPhaseStatus progress ph =
     (if progress \<ge> endProgress ph then ''completed''
      else if progress \<ge> startProgress ph \<and> progress < endProgress ph then ''current''
      else ''pending'')"

definition inPhase :: "real \<Rightarrow> phase \<Rightarrow> bool" where
  "inPhase progress ph \<longleftrightarrow> progress \<ge> startProgress ph \<and> progress < endProgress ph"

definition getCurrentPhase :: "real \<Rightarrow> phase" where
  "getCurrentPhase progress =
     (case find (inPhase progress) phases of
        Some ph \<Rightarrow> ph
      | None \<Rightarrow> phases ! (length phases - 1))"


section \<open>JavaScript values\<close>

text \<open>
  A response body as \<^verbatim>\<open>axios\<close> delivers it: a parsed JSON value. An object is the list
  of its properties, read with \<^const>\<open>map_of\<close>; a property that is absent reads as
  \<^verbatim>\<open>undefined\<close>, which is \<^const>\<open>None\<close>. Strings are read as lists of characters.
\<close>

datatype json =
    JNull
  | JBool bool
  | JNum real
  | JStr string
  | JArr "json list"
  | JObj "(string \<times> json) list"

datatype js_exn = TypeError

text \<open>\<^verbatim>\<open>ToBoolean\<close>: \<^verbatim>\<open>null\<close>, \<^verbatim>\<open>false\<close>, \<^verbatim>\<open>0\<close> and the empty string are falsy.\<close>

definition truthy :: "json \<Rightarrow> bool" where
  "truthy v =
     (case v of
        JNull \<Rightarrow> False
      | JBool b \<Rightarrow> b
      | JNum x \<Rightarrow> x \<noteq> 0
      | JStr s \<Rightarrow> s \<noteq> []
      | JArr xs \<Rightarrow> True
      | JObj kvs \<Rightarrow> True)"

text \<open>
  \<^verbatim>\<open>v.k\<close> for a value \<open>v\<close> other than \<^verbatim>\<open>null\<close>, and for a key that no prototype
  defines (\<^verbatim>\<open>detail\<close>, \<^verbatim>\<open>message\<close>, \<^verbatim>\<open>msg\<close>): only an object can hold it.
\<close>

definition property :: "json \<Rightarrow> string \<Rightarrow> json option" where
  "property v k = (case v of JObj kvs \<Rightarrow> map_of kvs k | _ \<Rightarrow> None)"

text \<open>
  The value of \<^verbatim>\<open>v.k\<close> when it is truthy: the test \<^verbatim>\<open>if (v.k)\<close> and the left
  operand of \<^verbatim>\<open>v.k || d\<close>.
\<close>

definition truthy_property :: "json \<Rightarrow> string \<Rightarrow> json option" where
  "truthy_property v k =
     (case property v k of
        None \<Rightarrow> None
      | Some x \<Rightarrow> if truthy x then Some x else None)"

definition is_string :: "json \<Rightarrow> bool" where
  "is_string v = (case v of JStr s \<Rightarrow> True | _ \<Rightarrow> False)"

fun intercalate :: "string \<Rightarrow> string list \<Rightarrow> string" where
  "intercalate sep [] = []"
| "intercalate sep [s] = s"
| "intercalate sep (s # t # ss) = s @ sep @ intercalate sep (t # ss)"

text \<open>
  \<^verbatim>\<open>ToString\<close> and \<^verbatim>\<open>Array.prototype.join\<close>. An array prints as its elements joined
  by commas, \<^verbatim>\<open>null\<close> elements as the empty string; an object prints as
  \<^verbatim>\<open>[object Object]\<close>. How a number prints is the parameter \<open>nf\<close>.
\<close>

fun ToString :: "(real \<Rightarrow> string) \<Rightarrow> json \<Rightarrow> string" where
  "ToString nf JNull = ''null''"
| "ToString nf (JBool b) = (if b then ''true'' else ''false'')"
| "ToString nf (JNum x) = nf x"
| "ToString nf (JStr s) = s"
| "ToString nf (JArr xs) =
     intercalate '','' (map (\<lambda>x. if x = JNull then [] else ToString nf x) xs)"
| "ToString nf (JObj kvs) = ''[object Object]''"

definition join :: "(real \<Rightarrow> string) \<Rightarrow> string \<Rightarrow> json list \<Rightarrow> string" where
  "join nf sep xs = intercalate sep (map (\<lambda>x. if x = JNull then [] else ToString nf x) xs)"

text \<open>\<^verbatim>\<open>xs.map(f)\<close> for a callback that may throw: the first exception ends the loop.\<close>

fun map_exn :: "('a \<Rightarrow> js_exn + 'b) \<Rightarrow> 'a list \<Rightarrow> js_exn + 'b list" where
  "map_exn f [] = Inr []"
| "map_exn f (x # xs) =
     (case f x of
        Inl e \<Rightarrow> Inl e
      | Inr y \<Rightarrow> (case map_exn f xs of Inl e \<Rightarrow> Inl e | Inr ys \<Rightarrow> Inr (y # ys)))"

subsection \<open>Numbers\<close>

text \<open>
  The numbers of the page are integers, and JavaScript holds them as doubles: an integer of
  magnitude up to \<open>2 ^ 53\<close> is held exactly, a larger one is rounded to 53 significant
  bits, to the nearest and on a tie to the even one, and one that rounds to \<open>2 ^ 1024\<close> or
  more becomes an infinity. \<open>round_double\<close> is that rounding and \<open>js_add\<close> is \<^verbatim>\<open>+\<close>: the
  exact sum, rounded.
\<close>

datatype jsnum = NaN | Num int | PosInfinity | NegInfinity

fun bit_length :: "nat \<Rightarrow> nat" where
  "bit_length n = (if n = 0 then 0 else Suc (bit_length (n div 2)))"

declare bit_length.simps [simp del]

definition round_double :: "int \<Rightarrow> jsnum" where
  "round_double n =
     (if \<bar>n\<bar> \<le> 2 ^ 53 then Num n
      else
        (let e = bit_length (nat \<bar>n\<bar>) - 53;
             q = \<bar>n\<bar> div 2 ^ e;
             r = \<bar>n\<bar> mod 2 ^ e;
             m = (if 2 * r > 2 ^ e \<or> (2 * r = 2 ^ e \<and> odd q) then q + 1 else q) * 2 ^ e
         in if m \<ge> 2 ^ 1024 then (if n < 0 then NegInfinity else PosInfinity)
            else Num (if n < 0 then - m else m)))"


text \<open>\<^verbatim>\<open>a || b\<close> on numbers: \<^verbatim>\<open>NaN\<close> and \<^verbatim>\<open>0\<close> are falsy.\<close>

definition num_or :: "jsnum \<Rightarrow> jsnum \<Rightarrow> jsnum" where
  "num_or a b = (case a of NaN \<Rightarrow> b | Num n \<Rightarrow> if n = 0 then b else a | _ \<Rightarrow> a)"

subsection \<open>Numbers read from strings\<close>

text \<open>
  \<^verbatim>\<open>parseInt\<close> follows ECMAScript: leading white space is dropped, then a sign, then
  \<^verbatim>\<open>0x\<close> selects radix 16, and the longest prefix of digits is read; no digit gives
  \<^verbatim>\<open>NaN\<close>, and the integer read is returned as a double. The white space is the
  ASCII part of \<^verbatim>\<open>StrWhiteSpaceChar\<close>.
\<close>

definition is_StrWhiteSpaceChar :: "char \<Rightarrow> bool" where
  "is_StrWhiteSpaceChar c \<longleftrightarrow> (of_char c :: nat) \<in> {9, 10, 11, 12, 13, 32}"

definition digit_value :: "char \<Rightarrow> nat option" where
  "digit_value c =
     (let n = (of_char c :: nat) in
      if 48 \<le> n \<and> n \<le> 57 then Some (n - 48)
      else if 97 \<le> n \<and> n \<le> 122 then Some (n - 87)
      else if 65 \<le> n \<and> n \<le> 90 then Some (n - 55)
      else None)"

definition is_radix_digit :: "nat \<Rightarrow> char \<Rightarrow> bool" where
  "is_radix_digit R c = (case digit_value c of Some d \<Rightarrow> d < R | None \<Rightarrow> False)"

definition digits_value :: "nat \<Rightarrow> string \<Rightarrow> nat" where
  "digits_value R Z =
     foldl (\<lambda>acc c. acc * R + (case digit_value c of Some d \<Rightarrow> d | None \<Rightarrow> 0)) 0 Z"

definition parseInt :: "string \<Rightarrow> jsnum" where
  "parseInt inputString =
     (let S0 = dropWhile is_StrWhiteSpaceChar inputString;
          sign = (if S0 \<noteq> [] \<and> hd S0 = CHR ''-'' then - 1 else 1 :: int);
          S1 = (if S0 \<noteq> [] \<and> (hd S0 = CHR ''+'' \<or> hd S0 = CHR ''-'') then tl S0 else S0);
          hex = (take 2 S1 = ''0x'' \<or> take 2 S1 = ''0X'');
          R = (if hex then 16 else 10);
          S2 = (if hex then drop 2 S1 else S1);
          Z = takeWhile (is_radix_digit R) S2
      in if Z = [] then NaN else round_double (sign * int (digits_value R Z)))"

text \<open>A form value that may be \<^verbatim>\<open>undefined\<close> is converted to a string first.\<close>

definition ToString_field :: "string option \<Rightarrow> string" where
  "ToString_field v = (case v of None \<Rightarrow> ''undefined'' | Some s \<Rightarrow> s)"


section \<open>The error message shown after a failed request\<close>

text \<open>
  \<^verbatim>\<open>AnalysisForm.onSubmit\<close>, \<^verbatim>\<open>AnalysisPage\<close>, \<^verbatim>\<open>ResultsPage\<close> and
  \<^verbatim>\<open>handleDownload\<close> derive the message by the same chain of tests and differ in the
  default text only, which is the parameter \<open>dflt\<close>. Of the \<^verbatim>\<open>axios\<close> error the code
  reads \<^verbatim>\<open>error.response?.data\<close> (\<^const>\<open>None\<close> when there is no response or no body)
  and \<^verbatim>\<open>error.message\<close>. \<^verbatim>\<open>JSON.stringify\<close> is the parameter \<open>stringify\<close>: on a
  parsed JSON value it returns a string. The result is the value of \<^verbatim>\<open>errorMessage\<close>,
  or the exception that left the chain.
\<close>

record axios_error =
  response_data :: "json option"
  message :: "string option"

text \<open>The callback of \<^verbatim>\<open>data.map\<close>; \<^verbatim>\<open>err.msg\<close> throws on \<^verbatim>\<open>null\<close>.\<close>

definition validation_item :: "json \<Rightarrow> js_exn + json" where
  "validation_item err =
     (case err of
        JStr s \<Rightarrow> Inr err
      | JNull \<Rightarrow> Inl TypeError
      | _ \<Rightarrow>
          (case truthy_property err ''msg'' of
             Some m \<Rightarrow> Inr m
           | None \<Rightarrow> Inr (JStr ''Validation error'')))"

text \<open>The branch \<^verbatim>\<open>else if (error.message)\<close>, and the default that stays otherwise.\<close>

definition message_or_default :: "string \<Rightarrow> axios_error \<Rightarrow> string" where
  "message_or_default dflt error =
     (case message error of
        Some m \<Rightarrow> if m \<noteq> [] then m else dflt
      | None \<Rightarrow> dflt)"

definition errorMessage ::
  "(json \<Rightarrow> string) \<Rightarrow> (real \<Rightarrow> string) \<Rightarrow> string \<Rightarrow> axios_error \<Rightarrow> js_exn + json" where
  "errorMessage stringify nf dflt error =
     (case response_data error of
        None \<Rightarrow> Inr (JStr (message_or_default dflt error))
      | Some data \<Rightarrow>
          if \<not> truthy data then Inr (JStr (message_or_default dflt error))
          else if is_string data then Inr data
          else
            (case truthy_property data ''detail'' of
               Some d \<Rightarrow> Inr d
             | None \<Rightarrow>
                 (case truthy_property data ''message'' of
                    Some m \<Rightarrow> Inr m
                  | None \<Rightarrow>
                      (case data of
                         JArr errs \<Rightarrow>
                           (case map_exn validation_item errs of
                              Inl e \<Rightarrow> Inl e
                            | Inr items \<Rightarrow> Inr (JStr (join nf '', '' items)))
                       | _ \<Rightarrow> Inr (JStr (stringify data))))))"


section \<open>AnalysisForm: validation and the request\<close>

subsection \<open>The patterns of the form\<close>

text \<open>
  The two regular expressions of the form are anchored at both ends and are sequences of
  single characters, each optionally under \<^verbatim>\<open>+\<close>. An atom is a character, a negated
  character (\<^verbatim>\<open>[^/]\<close>) or the class \<^verbatim>\<open>[a-zA-Z0-9]\<close>. \<open>regex_test\<close> tries both
  continuations of a \<^verbatim>\<open>+\<close>, as a backtracking matcher does, so it finds a match
  whenever there is one.
\<close>

datatype atom = Lit char | NotChar char | AlNum

datatype item = One atom | Plus atom

definition is_alnum :: "char \<Rightarrow> bool" where
  "is_alnum c \<longleftrightarrow>
     (let n = (of_char c :: nat)
      in (97 \<le> n \<and> n \<le> 122) \<or> (65 \<le> n \<and> n \<le> 90) \<or> (48 \<le> n \<and> n \<le> 57))"

fun atom_matches :: "atom \<Rightarrow> char \<Rightarrow> bool" where
  "atom_matches (Lit d) c \<longleftrightarrow> c = d"
| "atom_matches (NotChar d) c \<longleftrightarrow> c \<noteq> d"
| "atom_matches AlNum c \<longleftrightarrow> is_alnum c"

fun regex_test :: "item list \<Rightarrow> string \<Rightarrow> bool" where
  "regex_test [] s \<longleftrightarrow> s = []"
| "regex_test (i # r) [] \<longleftrightarrow> False"
| "regex_test (One a # r) (c # s) \<longleftrightarrow> atom_matches a c \<and> regex_test r s"
| "regex_test (Plus a # r) (c # s) \<longleftrightarrow>
     atom_matches a c \<and> (regex_test (Plus a # r) s \<or> regex_test r s)"

definition literal :: "string \<Rightarrow> item list" where
  "literal s = map (\<lambda>c. One (Lit c)) s"

text \<open>\<^verbatim>\<open>/^https:\/\/github\.com\/[^/]+\/[^/]+$/\<close>\<close>

definition repositoryUrl_pattern :: "item list" where
  "repositoryUrl_pattern =
     literal ''https://github.com/'' @ [Plus (NotChar CHR ''/'')]
       @ literal ''/'' @ [Plus (NotChar CHR ''/'')]"

text \<open>\<^verbatim>\<open>/^sk-or-v1-[a-zA-Z0-9]+$/\<close>\<close>

definition apiKey_pattern :: "item list" where
  "apiKey_pattern = literal ''sk-or-v1-'' @ [Plus AlNum]"

subsection \<open>The fields and their rules\<close>

text \<open>
  The state of the form when the user submits. The two text inputs are always rendered.
  The inputs of the advanced options are rendered, and so registered, only while the panel
  is open (\<^verbatim>\<open>showAdvanced\<close>). Until the panel has been opened their values are
  \<^verbatim>\<open>undefined\<close> (\<^const>\<open>None\<close>); once it has been closed again
  \<^verbatim>\<open>react-hook-form\<close> keeps the values and sends them, but applies no rule to an input
  that is not mounted. Of a number input the code reads the text (\<^verbatim>\<open>data.maxFiles\<close>),
  and the \<^verbatim>\<open>min\<close> and \<^verbatim>\<open>max\<close> rules read its number; the browser supplies both,
  \<^const>\<open>None\<close> standing for a number that is \<^verbatim>\<open>NaN\<close>.
\<close>

record number_input =
  field_text :: string
  field_number :: "real option"

record form_state =
  repositoryUrl :: string
  apiKey :: string
  showAdvanced :: bool
  includeDependencies :: "bool option"
  generateMocks :: "bool option"
  targetCoverage :: "number_input option"
  maxFiles :: "number_input option"

record form_errors =
  errors_repositoryUrl :: "string option"
  errors_apiKey :: "string option"
  errors_targetCoverage :: "string option"
  errors_maxFiles :: "string option"

text \<open>
  The rules \<^verbatim>\<open>required\<close> and \<^verbatim>\<open>pattern\<close> of a text field: an empty value fails
  \<^verbatim>\<open>required\<close>, any other value is tested against the pattern.
\<close>

definition validate_text :: "string \<Rightarrow> item list \<Rightarrow> string \<Rightarrow> string \<Rightarrow> string option" where
  "validate_text required_message pat pattern_message v =
     (if v = [] then Some required_message
      else if \<not> regex_test pat v then Some pattern_message
      else None)"

text \<open>
  The rules \<^verbatim>\<open>min\<close> and \<^verbatim>\<open>max\<close> of a number field apply to a value that is not
  empty; the message of \<^verbatim>\<open>max\<close> comes first when the value exceeds it.
\<close>

definition validate_number ::
  "(real \<times> string) option \<Rightarrow> (real \<times> string) option \<Rightarrow> number_input option \<Rightarrow> string option" where
  "validate_number min_rule max_rule field =
     (case field of
        None \<Rightarrow> None
      | Some inp \<Rightarrow>
          (case field_number inp of
             None \<Rightarrow> None
           | Some x \<Rightarrow>
               if field_text inp = [] then None
               else if (case max_rule of Some (hi, m) \<Rightarrow> x > hi | None \<Rightarrow> False)
                 then map_option snd max_rule
               else if (case min_rule of Some (lo, m) \<Rightarrow> x < lo | None \<Rightarrow> False)
                 then map_option snd min_rule
               else None))"

definition validate :: "form_state \<Rightarrow> form_errors" where
  "validate f =
     \<lparr> errors_repositoryUrl =
         validate_text ''Repository URL is required'' repositoryUrl_pattern
           ''Please enter a valid GitHub repository URL'' (repositoryUrl f),
       errors_apiKey =
         validate_text ''API key is required'' apiKey_pattern
           ''Please enter a valid OpenRouter API key'' (apiKey f),
       errors_targetCoverage =
         (if showAdvanced f then
            validate_number (Some (0, ''Coverage must be at least 0%''))
              (Some (100, ''Coverage must be at most 100%'')) (targetCoverage f)
          else None),
       errors_maxFiles =
         (if showAdvanced f then
            validate_number (Some (1, ''Max files must be at least 1'')) None (maxFiles f)
          else None) \<rparr>"

definition no_errors :: "form_errors \<Rightarrow> bool" where
  "no_errors e \<longleftrightarrow>
     errors_repositoryUrl e = None \<and> errors_apiKey e = None \<and>
     errors_targetCoverage e = None \<and> errors_maxFiles e = None"

subsection \<open>The request\<close>

text \<open>
  The argument of \<^verbatim>\<open>analysisAPI.startAnalysis\<close> in \<^verbatim>\<open>onSubmit\<close>, which is posted to
  \<^verbatim>\<open>/analyze\<close>. \<^verbatim>\<open>Boolean\<close> of a checkbox value is true for \<^verbatim>\<open>true\<close> only;
  \<^verbatim>\<open>data.maxFiles\<close> is truthy when it is a string that is not empty; \<^verbatim>\<open>null\<close> is
  \<^const>\<open>None\<close>.
\<close>

record analysis_request =
  repository_url :: string
  api_key :: string
  include_dependencies :: bool
  generate_mocks :: bool
  target_coverage :: jsnum
  max_files :: "jsnum option"

definition Boolean :: "bool option \<Rightarrow> bool" where
  "Boolean v = (case v of None \<Rightarrow> False | Some b \<Rightarrow> b)"

definition onSubmit_request :: "form_state \<Rightarrow> analysis_request" where
  "onSubmit_request data =
     \<lparr> repository_url = repositoryUrl data,
       api_key = apiKey data,
       include_dependencies = Boolean (includeDependencies data),
       generate_mocks = Boolean (generateMocks data),
       target_coverage =
         num_or (parseInt (ToString_field (map_option field_text (targetCoverage data)))) (Num 80),
       max_files =
         (case map_option field_text (maxFiles data) of
            None \<Rightarrow> None
          | Some t \<Rightarrow> if t \<noteq> [] then Some (parseInt t) else None) \<rparr>"

text \<open>
  \<^verbatim>\<open>handleSubmit(onSubmit)\<close>: \<^verbatim>\<open>react-hook-form\<close> validates every mounted field
  and calls \<^verbatim>\<open>onSubmit\<close> only when no rule failed; otherwise it fills \<^verbatim>\<open>errors\<close> and
  nothing is sent.
\<close>

definition handleSubmit :: "form_state \<Rightarrow> form_errors + analysis_request" where
  "handleSubmit f =
     (if no_errors (validate f) then Inr (onSubmit_request f) else Inl (validate f))"


section \<open>ResultsPage: downloads\<close>

text \<open>
  \<^verbatim>\<open>analysisAPI.downloadTestFiles\<close> and \<^verbatim>\<open>downloadCoverageReport\<close> are GET requests;
  \<open>http_get\<close> is the server: it answers a path with a body or with an error.
\<close>

definition downloadTestFiles :: "(string \<Rightarrow> axios_error + 'b) \<Rightarrow> string \<Rightarrow> axios_error + 'b" where
  "downloadTestFiles http_get taskId = http_get (''/download/'' @ taskId @ ''/tests'')"

definition downloadCoverageReport :: "(string \<Rightarrow> axios_error + 'b) \<Rightarrow> string \<Rightarrow> axios_error + 'b" where
  "downloadCoverageReport http_get taskId = http_get (''/download/'' @ taskId @ ''/coverage'')"

text \<open>
  What \<^verbatim>\<open>handleDownload(type)\<close> does: it saves the body under \<^verbatim>\<open>filename\<close> (the
  \<^verbatim>\<open>download\<close> attribute of the link it clicks), or shows the error message, or the
  derivation of the message throws. Both requests are made with
  \<^verbatim>\<open>responseType: 'blob'\<close>, so the body of an error answer reaches the chain as a
  \<^verbatim>\<open>Blob\<close>: an object that is not a string, has no \<^verbatim>\<open>detail\<close> and no
  \<^verbatim>\<open>message\<close> and is no array, which the chain sees as it sees the empty object. The
  flags \<^verbatim>\<open>downloading\<close> only disable the buttons and are left out.
\<close>

datatype 'b download_outcome =
    Saved string 'b
  | DownloadError json
  | DownloadThrew js_exn

definition download_error ::
  "(json \<Rightarrow> string) \<Rightarrow> (real \<Rightarrow> string) \<Rightarrow> string \<Rightarrow> axios_error \<Rightarrow> 'b download_outcome" where
  "download_error stringify nf type error =
     (case errorMessage stringify nf
             (''Failed to download '' @ (if type = ''tests'' then ''test files'' else ''coverage report''))
             (error \<lparr> response_data := map_option (\<lambda>blob. JObj []) (response_data error) \<rparr>) of
        Inr m \<Rightarrow> DownloadError m
      | Inl e \<Rightarrow> DownloadThrew e)"

definition handleDownload ::
  "(json \<Rightarrow> string) \<Rightarrow> (real \<Rightarrow> string) \<Rightarrow> (string \<Rightarrow> axios_error + 'b) \<Rightarrow> string \<Rightarrow> string
     \<Rightarrow> 'b download_outcome" where
  "handleDownload stringify nf http_get taskId type =
     (if type = ''tests'' then
        (case downloadTestFiles http_get taskId of
           Inr data \<Rightarrow> Saved (''test_files_'' @ taskId @ ''.zip'') data
         | Inl error \<Rightarrow> download_error stringify nf type error)
      else
        (case downloadCoverageReport http_get taskId of
           Inr data \<Rightarrow> Saved (''coverage_report_'' @ taskId @ ''.zip'') data
         | Inl error \<Rightarrow> download_error stringify nf type error))"

definition saved_filename :: "'b download_outcome \<Rightarrow> string option" where
  "saved_filename out = (case out of Saved filename data \<Rightarrow> Some filename | _ \<Rightarrow> None)"


section \<open>AnalysisPage: polling the status\<close>

text \<open>
  The body of a status response, as far as the page reads it.
\<close>

record task_status =
  status :: string
  progress_percentage :: real
  current_step :: string
  error_message :: "string option"

datatype toast = ToastSuccess string | ToastError string

text \<open>
  What makes the query send a status request: the mount of the page (the first event of a
  run), a tick of \<^verbatim>\<open>refetchInterval\<close>, and the window regaining focus or the network
  coming back. The last two are defaults of \<^verbatim>\<open>react-query\<close>, which neither
  \<^verbatim>\<open>new QueryClient()\<close> in \<^verbatim>\<open>App.js\<close> nor the options of \<^verbatim>\<open>useQuery\<close> turn off.
\<close>

datatype trigger = Mount | Interval | WindowFocus | Reconnect

text \<open>
  The state of the page: the React state \<^verbatim>\<open>pollingInterval\<close> (\<^verbatim>\<open>false\<close> is
  \<^const>\<open>None\<close>), the \<^verbatim>\<open>data\<close> and \<^verbatim>\<open>error\<close> of the query, the value of
  \<^verbatim>\<open>status?.status\<close> at the last run of the effect (React runs an effect again only
  when one of its dependencies has changed; \<^verbatim>\<open>taskId\<close> and \<^verbatim>\<open>navigate\<close> do not
  change), what the page has done (the toasts shown, the routes navigated to, the number of
  status requests sent), and whether it has been unmounted.
\<close>

record analysis_page =
  pollingInterval :: "nat option"
  query_data :: "task_status option"
  query_error :: "axios_error option"
  effect_dep :: "string option"
  toasts :: "toast list"
  navigated :: "string list"
  polls :: nat
  unmounted :: bool

text \<open>
  The page after its first render: the effect has run once with \<^verbatim>\<open>status\<close> undefined
  and has done nothing; no request has been answered yet.
\<close>

definition first_render :: analysis_page where
  "first_render =
     \<lparr> pollingInterval = Some 2000, query_data = None, query_error = None,
       effect_dep = None, toasts = [], navigated = [], polls = 0, unmounted = False \<rparr>"

text \<open>
  The effect. \<^verbatim>\<open>navigate\<close> leaves the route \<^verbatim>\<open>/analysis/:taskId\<close> for
  \<^verbatim>\<open>/results/:taskId\<close>, which \<^verbatim>\<open>App.js\<close> gives to another component: the page is
  unmounted.
\<close>

definition useEffect_status :: "string \<Rightarrow> analysis_page \<Rightarrow> analysis_page" where
  "useEffect_status taskId s =
     (let dep = map_option status (query_data s) in
      if dep = effect_dep s then s
      else if dep = Some ''completed'' then
        s \<lparr> effect_dep := dep,
            pollingInterval := None,
            toasts := toasts s @ [ToastSuccess ''Analysis completed successfully!''],
            navigated := navigated s @ [''/results/'' @ taskId],
            unmounted := True \<rparr>
      else if dep = Some ''failed'' then
        s \<lparr> effect_dep := dep,
            pollingInterval := None,
            toasts := toasts s @ [ToastError ''Analysis failed. Please try again.''] \<rparr>
      else s \<lparr> effect_dep := dep \<rparr>)"

text \<open>
  What React can render as the child of an element: a string, a number, a boolean or
  \<^verbatim>\<open>null\<close> (both render nothing), and an array of such; an object makes the render
  throw.
\<close>

fun renderable :: "json \<Rightarrow> bool" where
  "renderable (JObj kvs) = False"
| "renderable (JArr xs) = list_all renderable xs"
| "renderable v = True"

text \<open>
  The branch \<^verbatim>\<open>if (error)\<close> of the page derives the message and renders it in a
  paragraph. The render fails when the derivation throws or the message cannot be
  rendered.
\<close>

definition error_page_renders :: "(json \<Rightarrow> string) \<Rightarrow> (real \<Rightarrow> string) \<Rightarrow> axios_error \<Rightarrow> bool" where
  "error_page_renders stringify nf error =
     (case errorMessage stringify nf ''An error occurred while loading the task'' error of
        Inl e \<Rightarrow> False
      | Inr m \<Rightarrow> renderable m)"

text \<open>
  One request and its answer. A body replaces \<^verbatim>\<open>data\<close> and clears \<^verbatim>\<open>error\<close>; an
  error leaves the last \<^verbatim>\<open>data\<close> in place (\<^verbatim>\<open>retry: false\<close>: the request is not
  repeated at once). The page renders again and the effect runs; when the render of the
  error branch fails, React unmounts the page, which has no error boundary, and no effect
  runs. The answer, the render and the effect are one step, so no request falls between
  them.
\<close>

definition receive ::
  "(json \<Rightarrow> string) \<Rightarrow> (real \<Rightarrow> string) \<Rightarrow> string \<Rightarrow> analysis_page \<Rightarrow> axios_error + task_status
     \<Rightarrow> analysis_page" where
  "receive stringify nf taskId s answer =
     (case answer of
        Inr body \<Rightarrow>
          useEffect_status taskId
            (s \<lparr> query_data := Some body, query_error := None, polls := polls s + 1 \<rparr>)
      | Inl error \<Rightarrow>
          if error_page_renders stringify nf error then
            useEffect_status taskId (s \<lparr> query_error := Some error, polls := polls s + 1 \<rparr>)
          else s \<lparr> query_error := Some error, polls := polls s + 1, unmounted := True \<rparr>)"

text \<open>
  Whether an event makes the page send a request: never once the page is unmounted; a tick
  of the interval only while \<^verbatim>\<open>refetchInterval: pollingInterval\<close> is a number; the
  other events whenever the page is mounted.
\<close>

definition sends :: "trigger \<Rightarrow> analysis_page \<Rightarrow> bool" where
  "sends trig s \<longleftrightarrow>
     \<not> unmounted s \<and> (case trig of Interval \<Rightarrow> pollingInterval s \<noteq> None | _ \<Rightarrow> True)"

text \<open>
  A run of the page over a list of events, each with the answer the server would give to
  the request.
\<close>

fun run ::
  "(json \<Rightarrow> string) \<Rightarrow> (real \<Rightarrow> string) \<Rightarrow> string \<Rightarrow> analysis_page
     \<Rightarrow> (trigger \<times> (axios_error + task_status)) list \<Rightarrow> analysis_page" where
  "run stringify nf taskId s [] = s"
| "run stringify nf taskId s ((trig, answer) # events) =
     run stringify nf taskId
       (if sends trig s then receive stringify nf taskId s answer else s) events"

definition AnalysisPage ::
  "(json \<Rightarrow> string) \<Rightarrow> (real \<Rightarrow> string) \<Rightarrow> string
     \<Rightarrow> (trigger \<times> (axios_error + task_status)) list \<Rightarrow> analysis_page" where
  "AnalysisPage stringify nf taskId events = run stringify nf taskId first_render events"





section \<open>ResultsPage: the generated tests of each language\<close>

text \<open>
  An entry of \<^verbatim>\<open>results.test_files\<close>. A field that is missing or \<^verbatim>\<open>null\<close> is
  \<^const>\<open>None\<close>. \<^verbatim>\<open>test_count\<close> is the integer written in the response; the page
  holds it as a double. \<^verbatim>\<open>Object.entries\<close> lists the languages in the order of the
  object.
\<close>

record generated_file =
  test_file :: "string option"
  test_count :: "int option"

record language_tests =
  framework :: "string option"
  files :: "generated_file list option"
  success :: "bool option"









section \<open>The phases and the progress ranges\<close>

text \<open>
  Claim C1. Every phase of \<open>phases\<close> has a half-open range
  \<open>[startProgress, endProgress)\<close> that is not empty and lies within \<open>[0, 100]\<close>. The
  first range starts at 0, the last ends at 100, and each phase starts where the previous
  one ends. So the ranges partition \<open>[0, 100)\<close>: a number in it lies in the range of
  exactly one phase, and a number outside it lies in none.
\<close>

theorem phases_partition_progress:
  "list_all (\<lambda>ph. 0 \<le> startProgress ph \<and> startProgress ph < endProgress ph \<and> endProgress ph \<le> 100)
     phases
   \<and> startProgress (hd phases) = 0
   \<and> endProgress (last phases) = 100
   \<and> map startProgress (tl phases) = map endProgress (butlast phases)
   \<and> (\<forall>x. length (filter (\<lambda>ph. startProgress ph \<le> x \<and> x < endProgress ph) phases) =
          (if 0 \<le> x \<and> x < 100 then 1 else 0))"
  by (simp add: phases_def)

text \<open>
  Claim C2, as amended. The list of phases shown to the user has six entries, in this
  order: an initialization phase with the progress range from 0 to 10, and then the five
  stages cloning (10 to 20), code analysis (20 to 30), test generation (30 to 70), test
  execution (70 to 90) and finalization (90 to 100).
\<close>

theorem phases_initialization_then_five_stages:
  "map id_phase phases =
     ''initialization'' # [''cloning'', ''analysis'', ''generation'', ''execution'', ''completion'']
   \<and> map name phases =
     ''Initialization'' #
       [''Cloning Repository'', ''Code Analysis'', ''Test Generation'', ''Test Execution'',
        ''Finalization'']
   \<and> map (\<lambda>ph. (startProgress ph, endProgress ph)) phases =
     (0, 10) # [(10, 20), (20, 30), (30, 70), (70, 90), (90, 100)]"
  by (simp add: phases_def)

text \<open>
  Claim C2 as stated fails: the phases are not exactly the five stages, since
  \<^verbatim>\<open>Initialization\<close> comes first.
\<close>

theorem phases_not_exactly_five_stages:
  "map name phases \<noteq>
     [''Cloning Repository'', ''Code Analysis'', ''Test Generation'', ''Test Execution'',
      ''Finalization'']
   \<and> length phases \<noteq> 5"
  by (simp add: phases_def)

lemma find_inPhase:
  assumes "0 \<le> progress" and "progress < 100"
  shows "\<exists>ph. find (inPhase progress) phases = Some ph"
proof -
  have "length (filter (inPhase progress) phases) = 1"
    using assms by (simp add: phases_def inPhase_def)
  then have "filter (inPhase progress) phases \<noteq> []"
    by auto
  then have "find (inPhase progress) phases \<noteq> None"
    by (auto simp: find_None_iff filter_empty_conv)
  then show ?thesis by auto
qed

lemma getCurrentPhase_current:
  assumes "0 \<le> progress" and "progress < 100"
  shows "find (inPhase progress) phases = Some (getCurrentPhase progress)"
    and "startProgress (getCurrentPhase progress) \<le> progress"
    and "progress < endProgress (getCurrentPhase progress)"
    and "getPhaseStatus progress (getCurrentPhase progress) = ''current''"
proof -
  from find_inPhase[OF assms] obtain ph where f: "find (inPhase progress) phases = Some ph" ..
  then have cur: "getCurrentPhase progress = ph"
    by (simp add: getCurrentPhase_def)
  from f have "inPhase progress ph"
    by (auto simp: find_Some_iff)
  then have r: "startProgress ph \<le> progress" "progress < endProgress ph"
    by (simp_all add: inPhase_def)
  from f cur show "find (inPhase progress) phases = Some (getCurrentPhase progress)"
    by simp
  from r cur show "startProgress (getCurrentPhase progress) \<le> progress"
    and "progress < endProgress (getCurrentPhase progress)"
    by simp_all
  from r cur show "getPhaseStatus progress (getCurrentPhase progress) = ''current''"
    by (simp add: getPhaseStatus_def)
qed

text \<open>
  Claim C9. For a progress in \<open>[0, 100]\<close>, \<open>getPhaseStatus\<close> gives each phase one of
  the three statuses, and \<^verbatim>\<open>completed\<close> exactly when the progress has reached the end
  of the phase. Exactly one phase of \<open>phases\<close> is \<^verbatim>\<open>current\<close> when the progress is
  below 100, and none at 100. \<open>getCurrentPhase\<close> returns a phase of the list: when the
  search finds no phase whose range holds the progress, as at 100, it is the last phase,
  \<^verbatim>\<open>Finalization\<close>; below 100 it is the first phase the search finds, its range holds
  the progress, and it is the phase whose status is \<^verbatim>\<open>current\<close>.
\<close>

theorem phase_status_classification:
  assumes "0 \<le> progress" and "progress \<le> 100"
  shows "getPhaseStatus progress ph \<in> {''completed'', ''current'', ''pending''}
    \<and> (getPhaseStatus progress ph = ''completed'' \<longleftrightarrow> progress \<ge> endProgress ph)
    \<and> length (filter (\<lambda>ph. getPhaseStatus progress ph = ''current'') phases) =
         (if progress < 100 then 1 else 0)
    \<and> getCurrentPhase progress \<in> set phases
    \<and> (find (\<lambda>ph. progress \<ge> startProgress ph \<and> progress < endProgress ph) phases = None \<longrightarrow>
         getCurrentPhase progress = last phases \<and> name (getCurrentPhase progress) = ''Finalization'')
    \<and> (progress = 100 \<longrightarrow>
         find (\<lambda>ph. progress \<ge> startProgress ph \<and> progress < endProgress ph) phases = None)
    \<and> (progress < 100 \<longrightarrow>
         find (\<lambda>ph. progress \<ge> startProgress ph \<and> progress < endProgress ph) phases =
           Some (getCurrentPhase progress)
         \<and> startProgress (getCurrentPhase progress) \<le> progress
         \<and> progress < endProgress (getCurrentPhase progress)
         \<and> getPhaseStatus progress (getCurrentPhase progress) = ''current''
         \<and> filter (\<lambda>ph. getPhaseStatus progress ph = ''current'') phases =
             [getCurrentPhase progress])"
proof -
  have "getPhaseStatus progress ph \<in> {''completed'', ''current'', ''pending''}"
    by (simp add: getPhaseStatus_def)
  moreover have "getPhaseStatus progress ph = ''completed'' \<longleftrightarrow> progress \<ge> endProgress ph"
    by (simp add: getPhaseStatus_def)
  moreover have one: "length (filter (\<lambda>ph. getPhaseStatus progress ph = ''current'') phases) =
         (if progress < 100 then 1 else 0)"
    using assms by (simp add: phases_def getPhaseStatus_def)
  moreover have "getCurrentPhase progress \<in> set phases"
    by (simp add: getCurrentPhase_def phases_def inPhase_def)
  moreover have "getCurrentPhase progress = last phases \<and> name (getCurrentPhase progress) = ''Finalization''"
    if "find (\<lambda>ph. progress \<ge> startProgress ph \<and> progress < endProgress ph) phases = None"
  proof -
    from that have "find (inPhase progress) phases = None"
      by (simp add: inPhase_def[abs_def])
    then have "getCurrentPhase progress = phases ! (length phases - 1)"
      by (simp add: getCurrentPhase_def)
    then show ?thesis by (simp add: phases_def)
  qed
  moreover have "find (\<lambda>ph. progress \<ge> startProgress ph \<and> progress < endProgress ph) phases = None"
    if "progress = 100"
    using that by (simp add: phases_def)
  moreover have "find (\<lambda>ph. progress \<ge> startProgress ph \<and> progress < endProgress ph) phases =
           Some (getCurrentPhase progress)
         \<and> startProgress (getCurrentPhase progress) \<le> progress
         \<and> progress < endProgress (getCurrentPhase progress)
         \<and> getPhaseStatus progress (getCurrentPhase progress) = ''current''
         \<and> filter (\<lambda>ph. getPhaseStatus progress ph = ''current'') phases =
             [getCurrentPhase progress]"
    if below: "progress < 100"
  proof -
    note c = getCurrentPhase_current[OF assms(1) below]
    from c(1) have f: "find (\<lambda>ph. progress \<ge> startProgress ph \<and> progress < endProgress ph) phases =
        Some (getCurrentPhase progress)"
      by (simp add: inPhase_def[abs_def])
    let ?cur = "filter (\<lambda>ph. getPhaseStatus progress ph = ''current'') phases"
    from one below have "length ?cur = 1"
      by simp
    then obtain x where x: "?cur = [x]"
      by (cases ?cur) auto
    from c(1) have "getCurrentPhase progress \<in> set phases"
      by (auto simp: find_Some_iff)
    with c(4) have "getCurrentPhase progress \<in> set ?cur"
      by simp
    with x have "?cur = [getCurrentPhase progress]"
      by simp
    with f c show ?thesis by simp
  qed
  ultimately show ?thesis by blast
qed

text \<open>
  At progress 100 every phase is completed and the fallback is taken; at progress 45 the
  current phase is the test generation.
\<close>

theorem phase_status_classification_witness:
  "(0::real) \<le> 100 \<and> (100::real) \<le> 100
   \<and> getPhaseStatus 100 (last phases) = ''completed''
   \<and> length (filter (\<lambda>ph. getPhaseStatus 100 ph = ''current'') phases) = 0
   \<and> getCurrentPhase 100 = last phases
   \<and> name (getCurrentPhase 100) = ''Finalization''
   \<and> (0::real) \<le> 45 \<and> (45::real) \<le> 100
   \<and> getPhaseStatus 45 (getCurrentPhase 45) = ''current''
   \<and> name (getCurrentPhase 45) = ''Test Generation''"
proof -
  have h: "(0::real) \<le> 100" "(100::real) \<le> 100"
    by simp_all
  have h': "(0::real) \<le> 45" "(45::real) \<le> 100"
    by simp_all
  note t = phase_status_classification[OF h, of "last phases"]
  note t' = phase_status_classification[OF h', of "last phases"]
  from t have "getPhaseStatus 100 (last phases) = ''completed'' \<longleftrightarrow> 100 \<ge> endProgress (last phases)"
    by (elim conjE)
  then have completed: "getPhaseStatus 100 (last phases) = ''completed''"
    by (simp add: phases_def)
  from t have "length (filter (\<lambda>ph. getPhaseStatus 100 ph = ''current'') phases) =
      (if (100::real) < 100 then 1 else 0)"
    by (elim conjE)
  then have current: "length (filter (\<lambda>ph. getPhaseStatus 100 ph = ''current'') phases) = 0"
    by simp
  from t have "(100::real) = 100 \<longrightarrow>
      find (\<lambda>ph. 100 \<ge> startProgress ph \<and> 100 < endProgress ph) phases = None"
    by (elim conjE)
  then have none: "find (\<lambda>ph. 100 \<ge> startProgress ph \<and> 100 < endProgress ph) phases = None"
    by simp
  from t have "find (\<lambda>ph. 100 \<ge> startProgress ph \<and> 100 < endProgress ph) phases = None \<longrightarrow>
      getCurrentPhase 100 = last phases \<and> name (getCurrentPhase 100) = ''Finalization''"
    by (elim conjE)
  with none have fallback:
    "getCurrentPhase 100 = last phases \<and> name (getCurrentPhase 100) = ''Finalization''"
    by (rule rev_mp)
  from t' have "(45::real) < 100 \<longrightarrow>
         find (\<lambda>ph. 45 \<ge> startProgress ph \<and> 45 < endProgress ph) phases = Some (getCurrentPhase 45)
         \<and> startProgress (getCurrentPhase 45) \<le> 45
         \<and> 45 < endProgress (getCurrentPhase 45)
         \<and> getPhaseStatus 45 (getCurrentPhase 45) = ''current''
         \<and> filter (\<lambda>ph. getPhaseStatus 45 ph = ''current'') phases = [getCurrentPhase 45]"
    by (elim conjE)
  then have at45: "find (\<lambda>ph. 45 \<ge> startProgress ph \<and> 45 < endProgress ph) phases = Some (getCurrentPhase 45)"
    and cur45: "getPhaseStatus 45 (getCurrentPhase 45) = ''current''"
    by simp_all
  have "find (\<lambda>ph. 45 \<ge> startProgress ph \<and> 45 < endProgress ph) phases = Some (phases ! 3)"
    by (simp add: phases_def)
  with at45 have "getCurrentPhase 45 = phases ! 3"
    by simp
  then have name45: "name (getCurrentPhase 45) = ''Test Generation''"
    by (simp add: phases_def)
  from h h' completed current fallback cur45 name45 show ?thesis
    by (intro conjI) (elim conjE, assumption)+
qed


section \<open>The built-in functions at some inputs\<close>

text \<open>
  \<open>parseInt\<close> reads a prefix that is an integer and stops at the first other character;
  it gives \<^verbatim>\<open>NaN\<close> for the empty string and for \<^verbatim>\<open>undefined\<close>.
\<close>

lemma parseInt_examples:
  "parseInt ''80'' = Num 80"
  "parseInt ''0'' = Num 0"
  "parseInt '' -42px'' = Num (- 42)"
  "parseInt ''99.9'' = Num 99"
  "parseInt ''0x1F'' = Num 31"
  "parseInt [] = NaN"
  "parseInt (ToString_field None) = NaN"
  by (simp_all add: parseInt_def ToString_field_def is_StrWhiteSpaceChar_def is_radix_digit_def
      digit_value_def digits_value_def round_double_def)

text \<open>
  With the advanced options closed the request carries the defaults; an entry of 50 for
  the target coverage and of 10 for the number of files is sent as entered.
\<close>

lemma onSubmit_request_examples:
  "onSubmit_request
     \<lparr> repositoryUrl = u, apiKey = k, showAdvanced = False, includeDependencies = None, generateMocks = None,
       targetCoverage = None, maxFiles = None \<rparr>
   = \<lparr> repository_url = u, api_key = k, include_dependencies = False, generate_mocks = False,
       target_coverage = Num 80, max_files = None \<rparr>"
  "onSubmit_request
     \<lparr> repositoryUrl = u, apiKey = k, showAdvanced = True, includeDependencies = Some True, generateMocks = Some False,
       targetCoverage = Some \<lparr> field_text = ''50'', field_number = Some 50 \<rparr>,
       maxFiles = Some \<lparr> field_text = ''10'', field_number = Some 10 \<rparr> \<rparr>
   = \<lparr> repository_url = u, api_key = k, include_dependencies = True, generate_mocks = False,
       target_coverage = Num 50, max_files = Some (Num 10) \<rparr>"
  by (simp_all add: onSubmit_request_def Boolean_def num_or_def parseInt_def ToString_field_def
      is_StrWhiteSpaceChar_def is_radix_digit_def digit_value_def digits_value_def round_double_def)

text \<open>
  Beyond \<open>2 ^ 53\<close> an integer is rounded to the nearest double, a tie going to the even
  one.
\<close>

lemma round_double_examples:
  "round_double 9007199254740992 = Num 9007199254740992"
  "round_double 9007199254740993 = Num 9007199254740992"
  "round_double 9007199254740995 = Num 9007199254740996"
  "round_double (- 9007199254740995) = Num (- 9007199254740996)"
  "parseInt ''9007199254740993'' = Num 9007199254740992"
  by (simp_all add: round_double_def bit_length.simps Let_def parseInt_def
      is_StrWhiteSpaceChar_def is_radix_digit_def digit_value_def digits_value_def)

text \<open>
  An entry made while the panel was open and left behind when it was closed is sent
  without being checked against the rules of its field.
\<close>

lemma closed_panel_not_validated:
  "handleSubmit
     \<lparr> repositoryUrl = ''https://github.com/octocat/hello'', apiKey = ''sk-or-v1-abc123'',
       showAdvanced = False, includeDependencies = Some True, generateMocks = Some True,
       targetCoverage = Some \<lparr> field_text = ''500'', field_number = Some 500 \<rparr>,
       maxFiles = Some \<lparr> field_text = [], field_number = None \<rparr> \<rparr>
   = Inr \<lparr> repository_url = ''https://github.com/octocat/hello'', api_key = ''sk-or-v1-abc123'',
           include_dependencies = True, generate_mocks = True, target_coverage = Num 500,
           max_files = None \<rparr>"
  "\<exists>errors.
     handleSubmit
       \<lparr> repositoryUrl = ''https://github.com/octocat/hello'', apiKey = ''sk-or-v1-abc123'',
         showAdvanced = True, includeDependencies = Some True, generateMocks = Some True,
         targetCoverage = Some \<lparr> field_text = ''500'', field_number = Some 500 \<rparr>,
         maxFiles = Some \<lparr> field_text = [], field_number = None \<rparr> \<rparr>
     = Inl errors \<and> errors_targetCoverage errors = Some ''Coverage must be at most 100%''"
  by (simp_all add: handleSubmit_def validate_def no_errors_def validate_text_def validate_number_def
      repositoryUrl_pattern_def apiKey_pattern_def literal_def is_alnum_def onSubmit_request_def
      Boolean_def num_or_def parseInt_def ToString_field_def is_StrWhiteSpaceChar_def
      is_radix_digit_def digit_value_def digits_value_def round_double_def)

lemma regex_test_examples:
  "regex_test repositoryUrl_pattern ''https://github.com/octocat/hello''"
  "\<not> regex_test repositoryUrl_pattern ''https://github.com/octocat''"
  "\<not> regex_test repositoryUrl_pattern ''https://github.com/octocat/hello/tree''"
  "\<not> regex_test repositoryUrl_pattern ''http://github.com/octocat/hello''"
  "regex_test apiKey_pattern ''sk-or-v1-abc123''"
  "\<not> regex_test apiKey_pattern ''sk-or-v1-''"
  "\<not> regex_test apiKey_pattern ''sk-or-v1-abc_123''"
  by (simp_all add: repositoryUrl_pattern_def apiKey_pattern_def literal_def is_alnum_def)

lemma join_examples:
  "join nf '', '' [JStr ''a'', JNull, JArr [JStr ''b'', JBool True], JObj []] =
     ''a, , b,true, [object Object]''"
  by (simp add: join_def)


section \<open>The analysis form\<close>

subsection \<open>What the repository pattern accepts\<close>

lemma regex_test_literal:
  "regex_test (literal p @ r) s \<longleftrightarrow> (\<exists>v. s = p @ v \<and> regex_test r v)"
proof (induction p arbitrary: s)
  case Nil
  then show ?case by (simp add: literal_def)
next
  case (Cons a p)
  then show ?case by (cases s) (auto simp: literal_def)
qed

lemma regex_test_plus_notchar:
  "regex_test (Plus (NotChar d) # r) s \<longleftrightarrow>
     (\<exists>u v. s = u @ v \<and> u \<noteq> [] \<and> d \<notin> set u \<and> regex_test r v)"
proof (induction s)
  case Nil
  then show ?case by simp
next
  case (Cons c s)
  show ?case
  proof
    assume "regex_test (Plus (NotChar d) # r) (c # s)"
    then have c: "c \<noteq> d" and alt: "regex_test (Plus (NotChar d) # r) s \<or> regex_test r s"
      by auto
    from alt show "\<exists>u v. c # s = u @ v \<and> u \<noteq> [] \<and> d \<notin> set u \<and> regex_test r v"
    proof
      assume "regex_test (Plus (NotChar d) # r) s"
      with Cons.IH obtain u v where "s = u @ v" "u \<noteq> []" "d \<notin> set u" "regex_test r v"
        by blast
      with c have "c # s = (c # u) @ v \<and> c # u \<noteq> [] \<and> d \<notin> set (c # u) \<and> regex_test r v"
        by auto
      then show ?thesis by blast
    next
      assume "regex_test r s"
      with c have "c # s = [c] @ s \<and> [c] \<noteq> [] \<and> d \<notin> set [c] \<and> regex_test r s"
        by auto
      then show ?thesis by blast
    qed
  next
    assume "\<exists>u v. c # s = u @ v \<and> u \<noteq> [] \<and> d \<notin> set u \<and> regex_test r v"
    then obtain u v where uv: "c # s = u @ v" "u \<noteq> []" "d \<notin> set u" "regex_test r v"
      by blast
    then obtain u' where u: "u = c # u'"
      by (cases u) auto
    with uv have s: "s = u' @ v" and cd: "c \<noteq> d" and nd: "d \<notin> set u'"
      by auto
    show "regex_test (Plus (NotChar d) # r) (c # s)"
    proof (cases "u' = []")
      case True
      with s uv cd show ?thesis by simp
    next
      case False
      with s nd uv(4) have "regex_test (Plus (NotChar d) # r) s"
        using Cons.IH by blast
      with cd show ?thesis by simp
    qed
  qed
qed

lemma repositoryUrl_pattern_matches:
  "regex_test repositoryUrl_pattern s \<longleftrightarrow>
     (\<exists>owner repo. s = ''https://github.com/'' @ owner @ ''/'' @ repo \<and> owner \<noteq> [] \<and> repo \<noteq> []
        \<and> CHR ''/'' \<notin> set owner \<and> CHR ''/'' \<notin> set repo)"
  unfolding repositoryUrl_pattern_def regex_test_literal append_Cons append_Nil
    regex_test_plus_notchar
  by (auto simp: regex_test_literal[where r="[]", simplified] regex_test_plus_notchar)

subsection \<open>Submission\<close>

text \<open>
  Claim C4. A request is sent only for a repository address of the form
  \<^verbatim>\<open>https://github.com/<owner>/<repo>\<close>, with an owner and a repository name that are
  not empty and hold no slash; the request then carries that address. For any other
  address \<open>handleSubmit\<close> sends nothing and reports an error for the field
  \<^verbatim>\<open>repositoryUrl\<close>.
\<close>

theorem malformed_repositoryUrl_not_submitted:
  "(handleSubmit f = Inr request \<longrightarrow>
      repository_url request = repositoryUrl f \<and>
      (\<exists>owner repo. repositoryUrl f = ''https://github.com/'' @ owner @ ''/'' @ repo \<and>
         owner \<noteq> [] \<and> repo \<noteq> [] \<and> CHR ''/'' \<notin> set owner \<and> CHR ''/'' \<notin> set repo))
   \<and> ((\<nexists>owner repo. repositoryUrl f = ''https://github.com/'' @ owner @ ''/'' @ repo \<and>
         owner \<noteq> [] \<and> repo \<noteq> [] \<and> CHR ''/'' \<notin> set owner \<and> CHR ''/'' \<notin> set repo) \<longrightarrow>
       (\<exists>errors msg. handleSubmit f = Inl errors \<and> errors_repositoryUrl errors = Some msg))"
proof -
  let ?wf = "\<exists>owner repo. repositoryUrl f = ''https://github.com/'' @ owner @ ''/'' @ repo \<and>
         owner \<noteq> [] \<and> repo \<noteq> [] \<and> CHR ''/'' \<notin> set owner \<and> CHR ''/'' \<notin> set repo"
  have wf: "regex_test repositoryUrl_pattern (repositoryUrl f) \<longleftrightarrow> ?wf"
    by (rule repositoryUrl_pattern_matches)
  have sent: "repository_url request = repositoryUrl f \<and> ?wf" if "handleSubmit f = Inr request"
  proof -
    from that have ok: "no_errors (validate f)" and req: "request = onSubmit_request f"
      by (auto simp: handleSubmit_def split: if_splits)
    from ok have "validate_text ''Repository URL is required'' repositoryUrl_pattern
           ''Please enter a valid GitHub repository URL'' (repositoryUrl f) = None"
      by (simp add: no_errors_def validate_def)
    then have "regex_test repositoryUrl_pattern (repositoryUrl f)"
      by (simp add: validate_text_def split: if_splits)
    with wf req show ?thesis by (simp add: onSubmit_request_def)
  qed
  have rejected:
    "\<exists>errors msg. handleSubmit f = Inl errors \<and> errors_repositoryUrl errors = Some msg"
    if "\<not> ?wf"
  proof -
    from that wf have "\<not> regex_test repositoryUrl_pattern (repositoryUrl f)"
      by simp
    then have "\<exists>msg. errors_repositoryUrl (validate f) = Some msg"
      by (simp add: validate_def validate_text_def)
    then obtain msg where m: "errors_repositoryUrl (validate f) = Some msg" ..
    then have "\<not> no_errors (validate f)"
      by (simp add: no_errors_def)
    then have "handleSubmit f = Inl (validate f)"
      by (simp add: handleSubmit_def)
    with m show ?thesis by blast
  qed
  from sent rejected show ?thesis by blast
qed

text \<open>
  A form with a well-formed address is sent; the same form with the scheme missing from
  the address is not.
\<close>

theorem malformed_repositoryUrl_not_submitted_witness:
  "handleSubmit
     \<lparr> repositoryUrl = ''https://github.com/octocat/hello'', apiKey = ''sk-or-v1-abc123'', showAdvanced = False,
       includeDependencies = None, generateMocks = None, targetCoverage = None, maxFiles = None \<rparr>
   = Inr \<lparr> repository_url = ''https://github.com/octocat/hello'', api_key = ''sk-or-v1-abc123'',
           include_dependencies = False, generate_mocks = False, target_coverage = Num 80,
           max_files = None \<rparr>
   \<and> (\<exists>owner repo. ''https://github.com/octocat/hello'' = ''https://github.com/'' @ owner @ ''/'' @ repo \<and>
         owner \<noteq> [] \<and> repo \<noteq> [] \<and> CHR ''/'' \<notin> set owner \<and> CHR ''/'' \<notin> set repo)
   \<and> (\<nexists>owner repo. ''github.com/octocat/hello'' = ''https://github.com/'' @ owner @ ''/'' @ repo \<and>
         owner \<noteq> [] \<and> repo \<noteq> [] \<and> CHR ''/'' \<notin> set owner \<and> CHR ''/'' \<notin> set repo)
   \<and> (\<exists>errors msg.
         handleSubmit
           \<lparr> repositoryUrl = ''github.com/octocat/hello'', apiKey = ''sk-or-v1-abc123'', showAdvanced = False,
             includeDependencies = None, generateMocks = None, targetCoverage = None,
             maxFiles = None \<rparr>
         = Inl errors \<and> errors_repositoryUrl errors = Some msg)"
proof -
  let ?good = "\<lparr> repositoryUrl = ''https://github.com/octocat/hello'', apiKey = ''sk-or-v1-abc123'', showAdvanced = False,
       includeDependencies = None, generateMocks = None, targetCoverage = None, maxFiles = None \<rparr>"
  let ?bad = "\<lparr> repositoryUrl = ''github.com/octocat/hello'', apiKey = ''sk-or-v1-abc123'', showAdvanced = False,
       includeDependencies = None, generateMocks = None, targetCoverage = None, maxFiles = None \<rparr>"
  let ?request = "\<lparr> repository_url = ''https://github.com/octocat/hello'', api_key = ''sk-or-v1-abc123'',
           include_dependencies = False, generate_mocks = False, target_coverage = Num 80,
           max_files = None \<rparr>"
  have sent: "handleSubmit ?good = Inr ?request"
    by (simp add: handleSubmit_def validate_def no_errors_def validate_text_def validate_number_def
        repositoryUrl_pattern_def apiKey_pattern_def literal_def is_alnum_def onSubmit_request_def
        Boolean_def num_or_def parseInt_def ToString_field_def is_StrWhiteSpaceChar_def
        is_radix_digit_def digit_value_def digits_value_def round_double_def)
  have malformed: "\<nexists>owner repo. repositoryUrl ?bad = ''https://github.com/'' @ owner @ ''/'' @ repo \<and>
         owner \<noteq> [] \<and> repo \<noteq> [] \<and> CHR ''/'' \<notin> set owner \<and> CHR ''/'' \<notin> set repo"
    by simp
  from malformed_repositoryUrl_not_submitted[of ?good ?request] sent
  have "\<exists>owner repo. repositoryUrl ?good = ''https://github.com/'' @ owner @ ''/'' @ repo \<and>
         owner \<noteq> [] \<and> repo \<noteq> [] \<and> CHR ''/'' \<notin> set owner \<and> CHR ''/'' \<notin> set repo"
    by blast
  moreover from malformed_repositoryUrl_not_submitted[of ?bad] malformed
  have "\<exists>errors msg. handleSubmit ?bad = Inl errors \<and> errors_repositoryUrl errors = Some msg"
    by blast
  ultimately show ?thesis using sent malformed by simp
qed

text \<open>
  Claim C3, where the code departs from it. The user opens the advanced options and enters
  a target coverage of 0, which the rule \<^verbatim>\<open>min: { value: 0 }\<close> of the field accepts.
  The form is sent, and the request carries a target coverage of 80:
  \<^verbatim>\<open>parseInt("0") || 80\<close> is 80, since 0 is falsy.
\<close>

theorem zero_target_coverage_sent_as_80:
  "handleSubmit
     \<lparr> repositoryUrl = ''https://github.com/octocat/hello'',
       apiKey = ''sk-or-v1-abc123'',
       showAdvanced = True,
       includeDependencies = Some True,
       generateMocks = Some True,
       targetCoverage = Some \<lparr> field_text = ''0'', field_number = Some 0 \<rparr>,
       maxFiles = Some \<lparr> field_text = [], field_number = None \<rparr> \<rparr>
   = Inr \<lparr> repository_url = ''https://github.com/octocat/hello'',
           api_key = ''sk-or-v1-abc123'',
           include_dependencies = True,
           generate_mocks = True,
           target_coverage = Num 80,
           max_files = None \<rparr>"
  by (simp add: handleSubmit_def validate_def no_errors_def validate_text_def validate_number_def
      repositoryUrl_pattern_def apiKey_pattern_def literal_def is_alnum_def onSubmit_request_def
      Boolean_def num_or_def parseInt_def ToString_field_def is_StrWhiteSpaceChar_def
      is_radix_digit_def digit_value_def digits_value_def round_double_def)


section \<open>Error messages\<close>

text \<open>
  Claim C7, where the code departs from it. A body with a \<^verbatim>\<open>detail\<close> field that is a
  list of validation errors, \<^verbatim>\<open>{"detail": [{"msg": "field required"}]}\<close>, takes the
  branch \<^verbatim>\<open>errorMessage = error.response.data.detail\<close>: the message is then that
  list, not a string, whatever the default text and the printing functions are.
\<close>

theorem errorMessage_detail_list_not_string:
  "errorMessage stringify nf dflt
     \<lparr> response_data = Some (JObj [(''detail'', JArr [JObj [(''msg'', JStr ''field required'')]])]),
       message = Some ''Request failed with status code 422'' \<rparr>
   = Inr (JArr [JObj [(''msg'', JStr ''field required'')]])
   \<and> \<not> is_string (JArr [JObj [(''msg'', JStr ''field required'')]])"
  by (simp add: errorMessage_def truthy_def is_string_def truthy_property_def property_def)

text \<open>
  Where the chain does give a string: a body that is a string, no body at all, and a bare
  list of validation errors.
\<close>

lemma errorMessage_string_body:
  "s \<noteq> [] \<Longrightarrow>
     errorMessage stringify nf dflt \<lparr> response_data = Some (JStr s), message = m \<rparr> = Inr (JStr s)"
  by (simp add: errorMessage_def truthy_def is_string_def)

lemma errorMessage_no_body:
  "errorMessage stringify nf dflt \<lparr> response_data = None, message = m \<rparr> =
     Inr (JStr (case m of None \<Rightarrow> dflt | Some t \<Rightarrow> if t \<noteq> [] then t else dflt))"
  by (simp add: errorMessage_def message_or_default_def split: option.splits)

lemma errorMessage_validation_list:
  "errorMessage stringify nf dflt
     \<lparr> response_data = Some (JArr [JObj [(''msg'', JStr ''field required'')], JStr ''bad url'', JObj []]),
       message = m \<rparr>
   = Inr (JStr ''field required, bad url, Validation error'')"
  by (simp add: errorMessage_def truthy_def is_string_def truthy_property_def property_def
      validation_item_def join_def)


section \<open>Downloads\<close>

text \<open>
  Claim C5. When the server answers the request for the tests of a task with a body, the
  body is saved as \<^verbatim>\<open>test_files_<taskId>.zip\<close>; for the coverage report it is saved
  as \<^verbatim>\<open>coverage_report_<taskId>.zip\<close>; when the server answers with an error nothing
  is saved. The file name depends on the task and on the kind only: two downloads with
  different bodies give the same name.
\<close>

theorem download_filenames:
  "saved_filename (handleDownload stringify nf http_get taskId ''tests'') =
     (case http_get (''/download/'' @ taskId @ ''/tests'') of
        Inr data \<Rightarrow> Some (''test_files_'' @ taskId @ ''.zip'')
      | Inl error \<Rightarrow> None)
   \<and> saved_filename (handleDownload stringify nf http_get taskId ''coverage'') =
     (case http_get (''/download/'' @ taskId @ ''/coverage'') of
        Inr data \<Rightarrow> Some (''coverage_report_'' @ taskId @ ''.zip'')
      | Inl error \<Rightarrow> None)
   \<and> handleDownload stringify nf (\<lambda>path. Inr data) taskId ''tests'' =
       Saved (''test_files_'' @ taskId @ ''.zip'') data
   \<and> handleDownload stringify nf (\<lambda>path. Inr data) taskId ''coverage'' =
       Saved (''coverage_report_'' @ taskId @ ''.zip'') data
   \<and> saved_filename (handleDownload stringify nf (\<lambda>path. Inr data) taskId type) =
       saved_filename (handleDownload stringify' nf' (\<lambda>path. Inr data') taskId type)"
  by (auto simp: handleDownload_def saved_filename_def downloadTestFiles_def
      downloadCoverageReport_def download_error_def split: sum.splits)

text \<open>When a download fails with a body, the message shown is what the empty object prints as.\<close>

lemma download_error_blob:
  "download_error stringify nf type \<lparr> response_data = Some body, message = m \<rparr> =
     (DownloadError (JStr (stringify (JObj []))) :: 'b download_outcome)"
  by (simp add: download_error_def errorMessage_def truthy_def is_string_def truthy_property_def
      property_def)



section \<open>Polling\<close>






lemma run_unmounted: "unmounted s \<Longrightarrow> run stringify nf taskId s events = s"
  by (induction events arbitrary: s) (auto simp: sends_def)









text \<open>
  An error answer whose message cannot be rendered ends the run at once: the page is
  unmounted and the answers that follow are never asked for.
\<close>

lemma unrenderable_error_unmounts:
  "polls (AnalysisPage stringify nf taskId
      ((Mount, Inl \<lparr> response_data = Some (JObj [(''detail'', JArr [JObj [(''msg'', JStr ''x'')]])]),
                     message = None \<rparr>) # events)) = 1"
  by (simp add: AnalysisPage_def first_render_def sends_def receive_def error_page_renders_def
      errorMessage_def truthy_def is_string_def truthy_property_def property_def run_unmounted)


section \<open>The results of test generation\<close>










end
